theory Spec2Isabelle
  imports Main "HOL-Library.List_Lexorder" "HOL-Library.Char_ord"
begin

section \<open>JavaScript values and exceptions\<close>

text \<open>
  An optional string field (\<open>start?: string\<close>) is a \<open>string option\<close>. The test
  \<open>!v\<close> of the source holds for \<open>undefined\<close> and for the empty string.
\<close>

definition falsy :: "string option \<Rightarrow> bool" where
  "falsy v = (case v of None \<Rightarrow> True | Some s \<Rightarrow> s = [])"

text \<open>\<open>v || d\<close> on an optional string.\<close>

definition or_else :: "string option \<Rightarrow> string \<Rightarrow> string" where
  "or_else v d = (case v of None \<Rightarrow> d | Some s \<Rightarrow> if s = [] then d else s)"

text \<open>\<open>String.prototype.includes\<close>: the argument occurs as a contiguous substring.\<close>

fun str_includes :: "string \<Rightarrow> string \<Rightarrow> bool" where
  "str_includes [] sub = (sub = [])"
| "str_includes (c # cs) sub = (take (length sub) (c # cs) = sub \<or> str_includes cs sub)"

text \<open>\<open>Array.prototype.join\<close>.\<close>

fun join :: "string \<Rightarrow> string list \<Rightarrow> string" where
  "join sep [] = []"
| "join sep [x] = x"
| "join sep (x # y # ys) = x @ sep @ join sep (y # ys)"

text \<open>
  The exceptions of the routes: \<open>new Error(message)\<close>, told apart by their message
  only, and the \<open>ZodError\<close> of a failed schema parse.
\<close>

datatype exn = Error string | ZodError

section \<open>Requests to the outside world\<close>

text \<open>
  Every \<open>await\<close> on the commit-history provider, the database or the text generator
  is recorded: a computation returns its result (or the exception it threw) together
  with the list of outside calls it made, in order.
\<close>

datatype call =
    GetTagRef string string
  | GetTagObject string string
  | ListCommits string string nat bool string
  | CompareCommits string string string
  | SelectReleaseSlices string string
  | ChatCompletion

type_synonym 'a io = "(exn + 'a) \<times> call list"

definition io_return :: "'a \<Rightarrow> 'a io" where
  "io_return x = (Inr x, [])"

definition io_throw :: "exn \<Rightarrow> 'a io" where
  "io_throw e = (Inl e, [])"

definition io_lift :: "exn + 'a \<Rightarrow> 'a io" where
  "io_lift r = (r, [])"

definition io_call :: "call \<Rightarrow> 'a \<Rightarrow> 'a io" where
  "io_call c answer = (Inr answer, [c])"

definition io_bind :: "'a io \<Rightarrow> ('a \<Rightarrow> 'b io) \<Rightarrow> 'b io" where
  "io_bind m f =
     (case m of
        (Inl e, l) \<Rightarrow> (Inl e, l)
      | (Inr x, l) \<Rightarrow> (case f x of (r, l') \<Rightarrow> (r, l @ l')))"

section \<open>Environment validation\<close>

record env =
  GITHUB_PAT :: "string option"
  OPENAI_API_KEY :: "string option"
  NEXT_PUBLIC_SUPABASE_URL :: "string option"
  SUPABASE_SERVICE_ROLE_KEY :: "string option"
  HELICONE_API_KEY :: "string option"

definition missing_variables :: "(string \<times> string option) list \<Rightarrow> exn + unit" where
  "missing_variables required =
     (let missing = map fst (filter (\<lambda>(key, v). falsy v) required)
      in if length missing > 0
         then Inl (Error (''Missing required environment variables: '' @ join '', '' missing))
         else Inr ())"

text \<open>\<open>validateEnvironment\<close> of the generate route: five variables are required.\<close>

definition validateEnvironment :: "env \<Rightarrow> exn + unit" where
  "validateEnvironment e =
     missing_variables
       [(''GITHUB_PAT'', GITHUB_PAT e),
        (''OPENAI_API_KEY'', OPENAI_API_KEY e),
        (''NEXT_PUBLIC_SUPABASE_URL'', NEXT_PUBLIC_SUPABASE_URL e),
        (''SUPABASE_SERVICE_ROLE_KEY'', SUPABASE_SERVICE_ROLE_KEY e),
        (''HELICONE_API_KEY'', HELICONE_API_KEY e)]"

text \<open>\<open>validateEnvironment\<close> of the releases route: the two database variables.\<close>

definition validateEnvironment_releases :: "env \<Rightarrow> exn + unit" where
  "validateEnvironment_releases e =
     missing_variables
       [(''NEXT_PUBLIC_SUPABASE_URL'', NEXT_PUBLIC_SUPABASE_URL e),
        (''SUPABASE_SERVICE_ROLE_KEY'', SUPABASE_SERVICE_ROLE_KEY e)]"

section \<open>The \<open>release_slices\<close> table\<close>

text \<open>
  \<open>interface ReleaseSlice\<close>. The column \<open>commits_list\<close> is read back as
  \<open>existing.commits_list || []\<close>, so a row may hold \<open>null\<close> there: \<open>None\<close>.
\<close>

record release_slice =
  rs_id :: string
  rs_published_at :: string
  rs_repo :: string
  rs_branch :: string
  rs_mode :: string
  rs_start_date :: "string option"
  rs_end_date :: "string option"
  rs_base_sha :: "string option"
  rs_head_sha :: "string option"
  rs_base_tag :: "string option"
  rs_head_tag :: "string option"
  rs_markdown :: string
  rs_commits_list :: "string list option"
  rs_owner_id :: "string option"

text \<open>
  The database client answers every query with a pair \<open>{ data, error }\<close>. The store
  is the list of rows of the table and a flag telling whether it answers queries; when
  it does not, every query comes back with an error and leaves the rows as they are.
\<close>

datatype 'a pg_result = PgResult (pg_data: "'a option") (pg_error: "string option")

record database =
  release_slices :: "release_slice list"
  reachable :: bool

text \<open>\<open>.from('release_slices').select(...).eq('repo', repo).eq('branch', branch)\<close>\<close>

definition select_repo_branch ::
  "database \<Rightarrow> string \<Rightarrow> string \<Rightarrow> release_slice list pg_result" where
  "select_repo_branch db repo branch =
     (if reachable db
      then PgResult (Some (filter (\<lambda>r. rs_repo r = repo \<and> rs_branch r = branch)
                                  (release_slices db))) None
      else PgResult None (Some ''connection failed''))"

section \<open>Overlap detection\<close>

text \<open>
  The loop of \<open>checkCommitsOverlap\<close> over the rows of the scope:
  \<open>existingCommitsList.some(sha => newCommitShas.has(sha))\<close>, returning at the first hit.
\<close>

fun overlap_loop :: "release_slice list \<Rightarrow> string set \<Rightarrow> bool" where
  "overlap_loop [] newCommitShas = False"
| "overlap_loop (existing # rest) newCommitShas =
     (let existingCommitsList = (case rs_commits_list existing of None \<Rightarrow> [] | Some l \<Rightarrow> l);
          hasOverlap = list_ex (\<lambda>commitSha. commitSha \<in> newCommitShas) existingCommitsList
      in if hasOverlap then True else overlap_loop rest newCommitShas)"

definition checkCommitsOverlap ::
  "env \<Rightarrow> database \<Rightarrow> string \<Rightarrow> string \<Rightarrow> string list \<Rightarrow> bool io" where
  "checkCommitsOverlap e db repo branch newCommitsList =
     io_bind (io_lift (validateEnvironment e)) (\<lambda>_.
     io_bind (io_call (SelectReleaseSlices repo branch) (select_repo_branch db repo branch))
       (\<lambda>res.
          if pg_error res \<noteq> None then io_throw (Error ''Database query failed'')
          else (case pg_data res of
                  None \<Rightarrow> io_return False
                | Some data \<Rightarrow>
                    if length data = 0 then io_return False
                    else io_return (overlap_loop data (set newCommitsList)))))"

section \<open>Commit-history provider\<close>

text \<open>
  A response of \<open>fetch\<close>: either \<open>response.ok\<close> with the parsed JSON body, or a
  failure with \<open>response.status\<close> and \<open>response.statusText\<close>.
\<close>

datatype 'a response = Ok 'a | NotOk nat string

text \<open>The \<open>object\<close> member of a git reference and of a tag object.\<close>

record git_object =
  obj_type :: string
  obj_sha :: string

text \<open>
  A commit as the provider lists it: \<open>sha\<close>, \<open>commit.message\<close>,
  \<open>commit.author.name\<close> and \<open>commit.author.date\<close>.
\<close>

record commit =
  sha :: string
  message :: string
  author_name :: string
  author_date :: string

text \<open>
  The four endpoints the routes call:
  \<^item> \<open>/repos/{repo}/git/refs/tags/{tag}\<close>,
  \<^item> \<open>/repos/{repo}/git/tags/{sha}\<close>,
  \<^item> \<open>/repos/{repo}/commits?sha={branch}&per_page={n}&since={date}\<close> (or \<open>until\<close>;
    the flag is true for \<open>since\<close>),
  \<^item> \<open>/repos/{repo}/compare/{base}...{head}\<close>, whose body holds \<open>commits\<close>.
\<close>

record provider =
  git_ref_tag :: "string \<Rightarrow> string \<Rightarrow> git_object response"
  git_tag :: "string \<Rightarrow> string \<Rightarrow> git_object response"
  list_commits :: "string \<Rightarrow> string \<Rightarrow> nat \<Rightarrow> bool \<Rightarrow> string \<Rightarrow> commit list response"
  compare_commits :: "string \<Rightarrow> string \<Rightarrow> string \<Rightarrow> commit list option response"

text \<open>Decimal rendering of a status code inside a template string.\<close>

fun show_nat :: "nat \<Rightarrow> string" where
  "show_nat n =
     (if n < 10 then [''0123456789'' ! n]
      else show_nat (n div 10) @ [''0123456789'' ! (n mod 10)])"

declare show_nat.simps [simp del]

definition quoted :: "string \<Rightarrow> string" where
  "quoted s = CHR 0x27 # s @ [CHR 0x27]"

definition github_api_error :: "nat \<Rightarrow> string \<Rightarrow> exn" where
  "github_api_error status statusText =
     Error (''GitHub API error: '' @ show_nat status @ '' '' @ statusText)"

text \<open>\<open>resolveTagToSha\<close>\<close>

definition resolveTagToSha :: "provider \<Rightarrow> string \<Rightarrow> string \<Rightarrow> string io" where
  "resolveTagToSha P repo tag =
     io_bind (io_call (GetTagRef repo tag) (git_ref_tag P repo tag)) (\<lambda>response.
       case response of
         NotOk status statusText \<Rightarrow>
           if status = 404 then io_throw (Error (''Tag '' @ quoted tag @ '' not found''))
           else io_throw (github_api_error status statusText)
       | Ok tagData \<Rightarrow>
           if obj_type tagData = ''tag''
           then io_bind (io_call (GetTagObject repo (obj_sha tagData))
                                 (git_tag P repo (obj_sha tagData))) (\<lambda>tagResponse.
                  case tagResponse of
                    NotOk status statusText \<Rightarrow>
                      io_throw (Error (''Failed to resolve annotated tag: '' @ show_nat status
                                         @ '' '' @ statusText))
                  | Ok annotatedTag \<Rightarrow> io_return (obj_sha annotatedTag))
           else io_return (obj_sha tagData))"

text \<open>\<open>findCommitShaByDate\<close>: one page of at most 100 commits is requested.\<close>

definition findCommitShaByDate ::
  "provider \<Rightarrow> string \<Rightarrow> string \<Rightarrow> string \<Rightarrow> bool \<Rightarrow> string io" where
  "findCommitShaByDate P repo branch date isStart =
     io_bind (io_call (ListCommits repo branch 100 isStart date)
                      (list_commits P repo branch 100 isStart date)) (\<lambda>response.
       case response of
         NotOk status statusText \<Rightarrow> io_throw (github_api_error status statusText)
       | Ok commits \<Rightarrow>
           if length commits = 0
           then io_throw (Error (''No commits found '' @ (if isStart then ''since'' else ''until'')
                                   @ '' '' @ date))
           else io_return (if isStart then sha (commits ! (length commits - 1))
                           else sha (commits ! 0)))"

text \<open>The \<open>params\<close> argument of \<open>convertToShaRange\<close> and \<open>fetchCommits\<close>.\<close>

record range_params =
  p_start :: "string option"
  p_end :: "string option"
  p_base :: "string option"
  p_head :: "string option"

text \<open>\<open>convertToShaRange\<close>\<close>

definition convertToShaRange ::
  "provider \<Rightarrow> string \<Rightarrow> string \<Rightarrow> string \<Rightarrow> range_params \<Rightarrow> (string \<times> string) io" where
  "convertToShaRange P repo branch mode params =
     (if mode = ''date'' then
        if falsy (p_start params) \<or> falsy (p_end params)
        then io_throw (Error ''Start and end dates are required for date mode'')
        else io_bind (findCommitShaByDate P repo branch (the (p_start params)) True) (\<lambda>baseSha.
             io_bind (findCommitShaByDate P repo branch (the (p_end params)) False) (\<lambda>headSha.
             io_return (baseSha, headSha)))
      else if mode = ''tag'' then
        if falsy (p_base params) \<or> falsy (p_head params)
        then io_throw (Error ''Base and head tags are required for tag mode'')
        else io_bind (resolveTagToSha P repo (the (p_base params))) (\<lambda>baseSha.
             io_bind (if the (p_head params) = ''HEAD'' then io_return ''HEAD''
                      else resolveTagToSha P repo (the (p_head params))) (\<lambda>headSha.
             io_return (baseSha, headSha)))
      else if mode = ''sha'' then
        if falsy (p_base params) \<or> falsy (p_head params)
        then io_throw (Error ''Base and head SHAs are required for SHA mode'')
        else io_return (the (p_base params), the (p_head params))
      else io_throw (Error (''Invalid mode: '' @ mode)))"

text \<open>\<open>fetchCommits\<close>\<close>

definition fetchCommits ::
  "provider \<Rightarrow> string \<Rightarrow> string \<Rightarrow> string \<Rightarrow> range_params \<Rightarrow> commit list io" where
  "fetchCommits P repo branch mode params =
     io_bind (convertToShaRange P repo branch mode params) (\<lambda>(baseSha, headSha).
     io_bind (io_call (CompareCommits repo baseSha headSha)
                      (compare_commits P repo baseSha headSha)) (\<lambda>response.
       case response of
         NotOk status statusText \<Rightarrow>
           if status = 404
           then io_throw (Error ''Repository not found or commit range not accessible'')
           else io_throw (github_api_error status statusText)
       | Ok compareData \<Rightarrow>
           io_return (case compareData of None \<Rightarrow> [] | Some commits \<Rightarrow> commits)))"

section \<open>Drafting\<close>

text \<open>
  The text generator is outside the program: it answers the prompt built from the
  commits with the content of the first choice (possibly absent), or throws.
\<close>

type_synonym generator = "commit list \<Rightarrow> exn + string option"

definition generateChangelog :: "generator \<Rightarrow> commit list \<Rightarrow> string io" where
  "generateChangelog llm commits =
     io_bind (io_call ChatCompletion (llm commits)) (\<lambda>response.
       case response of
         Inl e \<Rightarrow> io_throw e
       | Inr content \<Rightarrow>
           io_return (or_else content
             (''# Changelog'' @ [CHR 0x0A, CHR 0x0A] @ ''Failed to generate changelog.'')))"

section \<open>The generate route\<close>

text \<open>The JSON body of a generate request, each member present or not.\<close>

record generate_body =
  b_repo :: "string option"
  b_branch :: "string option"
  b_mode :: "string option"
  b_start :: "string option"
  b_end :: "string option"
  b_base :: "string option"
  b_head :: "string option"

record generate_request =
  q_repo :: string
  q_branch :: string
  q_mode :: string
  q_params :: range_params

text \<open>
  \<open>generateSchema.parse\<close>: \<open>repo\<close> is a string of length at least 1, \<open>branch\<close>
  defaults to \<open>main\<close>, \<open>mode\<close> is one of the three literals, the rest is optional.
\<close>

definition generateSchema_parse :: "generate_body \<Rightarrow> exn + generate_request" where
  "generateSchema_parse body =
     (case b_repo body of
        None \<Rightarrow> Inl ZodError
      | Some repo \<Rightarrow>
          if length repo < 1 then Inl ZodError
          else (case b_mode body of
                  None \<Rightarrow> Inl ZodError
                | Some mode \<Rightarrow>
                    if mode \<notin> set [''date'', ''sha'', ''tag''] then Inl ZodError
                    else Inr \<lparr> q_repo = repo,
                               q_branch = (case b_branch body of None \<Rightarrow> ''main'' | Some b \<Rightarrow> b),
                               q_mode = mode,
                               q_params = \<lparr> p_start = b_start body, p_end = b_end body,
                                            p_base = b_base body, p_head = b_head body \<rparr> \<rparr>))"

text \<open>The body of a successful generate response.\<close>

record draft =
  d_markdown :: string
  d_repo :: string
  d_branch :: string
  d_mode :: string
  d_baseSha :: string
  d_headSha :: string
  d_commits_list :: "string list"
  d_originalParams :: range_params

text \<open>\<open>NextResponse.json(body, { status })\<close>, and the same with \<open>{ error: message }\<close>.\<close>

datatype 'a http = Json nat 'a | JsonError nat string

text \<open>A template string renders an absent value as \<open>undefined\<close>.\<close>

definition template :: "string option \<Rightarrow> string" where
  "template v = (case v of None \<Rightarrow> ''undefined'' | Some s \<Rightarrow> s)"

definition empty_range_message :: "generate_request \<Rightarrow> string" where
  "empty_range_message q =
     (let params = q_params q in
      if q_mode q = ''date'' then
        ''No commits found between '' @ template (p_start params) @ '' and ''
          @ template (p_end params) @ '' on branch '' @ quoted (q_branch q) @ ''.''
      else if q_mode q = ''sha'' then
        ''No commits found between SHA '' @ quoted (template (p_base params)) @ '' and ''
          @ quoted (template (p_head params)) @ '' on branch '' @ quoted (q_branch q) @ ''.''
      else if q_mode q = ''tag'' then
        ''No commits found between tag '' @ quoted (template (p_base params)) @ '' and ''
          @ quoted (template (p_head params)) @ '' on branch '' @ quoted (q_branch q) @ ''.''
      else ''No commits found in the specified range.'')"

definition overlap_message :: string where
  "overlap_message =
     ''A changelog for this commit range already exists. Some commits have already been included in another changelog.''"

text \<open>The \<open>try\<close> block of the generate route's \<open>POST\<close>.\<close>

definition generate_try ::
  "env \<Rightarrow> provider \<Rightarrow> database \<Rightarrow> generator \<Rightarrow> generate_body \<Rightarrow> draft http io" where
  "generate_try e P db llm body =
     io_bind (io_lift (validateEnvironment e)) (\<lambda>_.
     io_bind (io_lift (generateSchema_parse body)) (\<lambda>q.
     io_bind (convertToShaRange P (q_repo q) (q_branch q) (q_mode q) (q_params q))
       (\<lambda>(baseSha, headSha).
     io_bind (fetchCommits P (q_repo q) (q_branch q) (q_mode q) (q_params q)) (\<lambda>commits.
       if length commits = 0 then io_return (JsonError 404 (empty_range_message q))
       else
         let commitsList = map sha commits in
         io_bind (checkCommitsOverlap e db (q_repo q) (q_branch q) commitsList) (\<lambda>hasOverlap.
           if hasOverlap then io_return (JsonError 400 overlap_message)
           else
             io_bind (generateChangelog llm commits) (\<lambda>markdown.
               io_return (Json 200
                 \<lparr> d_markdown = markdown, d_repo = q_repo q, d_branch = q_branch q,
                   d_mode = q_mode q, d_baseSha = baseSha, d_headSha = headSha,
                   d_commits_list = commitsList, d_originalParams = q_params q \<rparr>)))))))"

text \<open>The \<open>catch\<close> block of the generate route's \<open>POST\<close>.\<close>

definition generate_catch :: "exn \<Rightarrow> 'a http" where
  "generate_catch error =
     (case error of
        ZodError \<Rightarrow> JsonError 400 ''Invalid request data''
      | Error msg \<Rightarrow>
          if str_includes msg ''Missing required environment variables''
          then JsonError 500 ''Server configuration error''
          else if str_includes msg ''Repository not found''
          then JsonError 404 ''Repository not found or not accessible''
          else if str_includes msg ''Tag'' \<and> str_includes msg ''not found''
          then JsonError 404 msg
          else if str_includes msg ''GitHub API error''
          then JsonError 502 ''Failed to fetch repository data''
          else if str_includes msg ''OpenAI''
          then JsonError 503 ''AI service unavailable''
          else JsonError 500 ''Internal server error'')"

text \<open>The generate route's \<open>POST\<close>: the response and the outside calls made.\<close>

definition POST_generate ::
  "env \<Rightarrow> provider \<Rightarrow> database \<Rightarrow> generator \<Rightarrow> generate_body \<Rightarrow> draft http \<times> call list" where
  "POST_generate e P db llm body =
     (case generate_try e P db llm body of
        (Inl error, calls) \<Rightarrow> (generate_catch error, calls)
      | (Inr response, calls) \<Rightarrow> (response, calls))"

section \<open>The releases route\<close>

text \<open>
  A JSON object is the list of its members. \<open>transformReleaseSlice\<close> builds the
  public form of a row: eight members, \<open>commits_list\<close> not among them.
\<close>

datatype json = JNull | JString string

type_synonym json_object = "(string \<times> json) list"


text \<open>
  \<open>new Date(s).toISOString().split('T')[0]\<close>, for a timestamp that the store returns
  in ISO form: the part before the \<open>T\<close>.
\<close>

definition iso_day :: "string \<Rightarrow> string" where
  "iso_day s = takeWhile (\<lambda>c. c \<noteq> CHR ''T'') s"

definition transformReleaseSlice :: "release_slice \<Rightarrow> json_object" where
  "transformReleaseSlice slice =
     (let (tag, range) =
        (if rs_mode slice = ''date'' then
           (let startDate = (case rs_start_date slice of
                               None \<Rightarrow> ''unknown''
                             | Some s \<Rightarrow> if s = [] then ''unknown'' else iso_day s);
                endDate = (case rs_end_date slice of
                             None \<Rightarrow> ''unknown''
                           | Some s \<Rightarrow> if s = [] then ''unknown'' else iso_day s)
            in (JNull, startDate @ '' to '' @ endDate))
         else if rs_mode slice = ''sha'' then
           (let baseSha = or_else (map_option (take 7) (rs_base_sha slice)) ''unknown'';
                headSha = or_else (map_option (take 7) (rs_head_sha slice)) ''unknown''
            in (JNull, baseSha @ ''...'' @ headSha))
         else if rs_mode slice = ''tag'' then
           (JString (or_else (rs_head_tag slice) ''unknown''),
            or_else (rs_base_tag slice) ''unknown'' @ ''...''
              @ or_else (rs_head_tag slice) ''unknown'')
         else (JNull, ''''))
      in [(''id'', JString (rs_id slice)),
          (''repo'', JString (rs_repo slice)),
          (''tag'', tag),
          (''range'', JString range),
          (''publishedAt'', JString (rs_published_at slice)),
          (''markdown'', JString (rs_markdown slice)),
          (''mode'', JString (rs_mode slice)),
          (''branch'', JString (rs_branch slice))])"

text \<open>The JSON body of a publish request.\<close>

record release_body =
  rb_repo :: "string option"
  rb_branch :: "string option"
  rb_mode :: "string option"
  rb_baseSha :: "string option"
  rb_headSha :: "string option"
  rb_markdown :: "string option"
  rb_commits_list :: "string list option"
  rb_originalParams :: "range_params option"

record release_request =
  r_repo :: string
  r_branch :: string
  r_mode :: string
  r_baseSha :: string
  r_headSha :: string
  r_markdown :: string
  r_commits_list :: "string list"
  r_originalParams :: "range_params option"

definition required_string :: "string option \<Rightarrow> exn + string" where
  "required_string v =
     (case v of None \<Rightarrow> Inl ZodError | Some s \<Rightarrow> if length s < 1 then Inl ZodError else Inr s)"

definition sum_bind :: "exn + 'a \<Rightarrow> ('a \<Rightarrow> exn + 'b) \<Rightarrow> exn + 'b" where
  "sum_bind m f = (case m of Inl e \<Rightarrow> Inl e | Inr x \<Rightarrow> f x)"

text \<open>\<open>createReleaseSchema.parse\<close>\<close>

definition createReleaseSchema_parse :: "release_body \<Rightarrow> exn + release_request" where
  "createReleaseSchema_parse body =
     sum_bind (required_string (rb_repo body)) (\<lambda>repo.
     sum_bind (case rb_mode body of
                 None \<Rightarrow> Inl ZodError
               | Some m \<Rightarrow> if m \<notin> set [''date'', ''sha'', ''tag''] then Inl ZodError else Inr m)
       (\<lambda>mode.
     sum_bind (required_string (rb_baseSha body)) (\<lambda>baseSha.
     sum_bind (required_string (rb_headSha body)) (\<lambda>headSha.
     sum_bind (required_string (rb_markdown body)) (\<lambda>markdown.
     sum_bind (case rb_commits_list body of
                 None \<Rightarrow> Inl ZodError
               | Some l \<Rightarrow> if length l < 1 then Inl ZodError else Inr l) (\<lambda>commits_list.
     Inr \<lparr> r_repo = repo,
           r_branch = (case rb_branch body of None \<Rightarrow> ''main'' | Some b \<Rightarrow> b),
           r_mode = mode, r_baseSha = baseSha, r_headSha = headSha,
           r_markdown = markdown, r_commits_list = commits_list,
           r_originalParams = rb_originalParams body \<rparr>))))))"

text \<open>
  \<open>originalParams?.start && { start_date: originalParams.start }\<close>: the column is
  set when the value is present and not empty.
\<close>

definition truthy_member ::
  "range_params option \<Rightarrow> (range_params \<Rightarrow> string option) \<Rightarrow> string option" where
  "truthy_member originalParams field =
     (case originalParams of
        None \<Rightarrow> None
      | Some ps \<Rightarrow> if falsy (field ps) then None else field ps)"

text \<open>
  \<open>insertData\<close> of the publish handler. The members \<open>id\<close> and \<open>published_at\<close> are
  absent from it (empty here): the store assigns them.
\<close>

definition insertData :: "release_request \<Rightarrow> release_slice" where
  "insertData v =
     \<lparr> rs_id = [], rs_published_at = [],
       rs_repo = r_repo v, rs_branch = r_branch v, rs_mode = r_mode v,
       rs_start_date = truthy_member (r_originalParams v) p_start,
       rs_end_date = truthy_member (r_originalParams v) p_end,
       rs_base_sha = Some (r_baseSha v), rs_head_sha = Some (r_headSha v),
       rs_base_tag = (if r_mode v = ''tag'' then truthy_member (r_originalParams v) p_base
                      else None),
       rs_head_tag = (if r_mode v = ''tag'' then truthy_member (r_originalParams v) p_head
                      else None),
       rs_markdown = r_markdown v,
       rs_commits_list = Some (r_commits_list v),
       rs_owner_id = None \<rparr>"

text \<open>
  \<open>.insert(insertData).select().single()\<close>: a reachable store appends the row, with
  the \<open>id\<close> and \<open>published_at\<close> it assigns, and returns it.
\<close>

definition insert_single ::
  "database \<Rightarrow> string \<Rightarrow> string \<Rightarrow> release_slice \<Rightarrow> release_slice pg_result \<times> database" where
  "insert_single db new_id now row =
     (if reachable db
      then (let stored = row \<lparr> rs_id := new_id, rs_published_at := now \<rparr>
            in (PgResult (Some stored) None,
                db \<lparr> release_slices := release_slices db @ [stored] \<rparr>))
      else (PgResult None (Some ''connection failed''), db))"

text \<open>
  \<open>.update({ markdown }).eq('id', id).select().single()\<close>. With \<open>single()\<close> the
  client requires the result to be exactly one row: it then returns that row;
  for no row (or several) it returns an error and \<open>data\<close> is \<open>null\<close>.
\<close>

definition update_markdown_single ::
  "database \<Rightarrow> string \<Rightarrow> string \<Rightarrow> release_slice pg_result \<times> database" where
  "update_markdown_single db ident markdown =
     (if reachable db
      then (case filter (\<lambda>r. rs_id r = ident) (release_slices db) of
              [row] \<Rightarrow>
                (PgResult (Some (row \<lparr> rs_markdown := markdown \<rparr>)) None,
                 db \<lparr> release_slices :=
                        map (\<lambda>r. if rs_id r = ident then r \<lparr> rs_markdown := markdown \<rparr> else r)
                            (release_slices db) \<rparr>)
            | _ \<Rightarrow>
                (PgResult None
                   (Some ''JSON object requested, multiple (or no) rows returned''), db))
      else (PgResult None (Some ''connection failed''), db))"


text \<open>The \<open>catch\<close> blocks of the releases route.\<close>

definition releases_catch :: "exn \<Rightarrow> 'a http" where
  "releases_catch error =
     (case error of
        Error msg \<Rightarrow>
          if str_includes msg ''Missing required environment variables''
          then JsonError 500 ''Server configuration error''
          else JsonError 500 ''Internal server error''
      | ZodError \<Rightarrow> JsonError 500 ''Internal server error'')"

definition releases_POST_catch :: "exn \<Rightarrow> 'a http" where
  "releases_POST_catch error =
     (case error of
        ZodError \<Rightarrow> JsonError 400 ''Invalid request data''
      | Error msg \<Rightarrow>
          if str_includes msg ''Missing required environment variables''
          then JsonError 500 ''Server configuration error''
          else if str_includes msg ''Database''
          then JsonError 500 ''Database operation failed''
          else JsonError 500 ''Internal server error'')"


text \<open>The JSON body of an update request.\<close>

record update_body =
  u_id :: "string option"
  u_markdown :: "string option"

text \<open>\<open>PUT\<close>: the response and the store afterwards.\<close>

definition PUT_releases ::
  "env \<Rightarrow> database \<Rightarrow> update_body \<Rightarrow> json_object http \<times> database" where
  "PUT_releases e db body =
     (case validateEnvironment_releases e of
        Inl error \<Rightarrow> (releases_catch error, db)
      | Inr _ \<Rightarrow>
          if falsy (u_id body) \<or> falsy (u_markdown body)
          then (JsonError 400 ''ID and markdown are required'', db)
          else
            (case update_markdown_single db (the (u_id body)) (the (u_markdown body)) of
               (res, db') \<Rightarrow>
                 if pg_error res \<noteq> None then (JsonError 500 ''Failed to update changelog'', db')
                 else (case pg_data res of
                         None \<Rightarrow> (JsonError 404 ''Changelog not found'', db')
                       | Some data \<Rightarrow> (Json 200 (transformReleaseSlice data), db'))))"

text \<open>
  \<open>POST\<close>: the publish operation. The store assigns \<open>new_id\<close> and \<open>now\<close> to the row.
\<close>

definition POST_releases ::
  "env \<Rightarrow> database \<Rightarrow> string \<Rightarrow> string \<Rightarrow> release_body \<Rightarrow> json_object http \<times> database" where
  "POST_releases e db new_id now body =
     (case validateEnvironment_releases e of
        Inl error \<Rightarrow> (releases_POST_catch error, db)
      | Inr _ \<Rightarrow>
          (case createReleaseSchema_parse body of
             Inl error \<Rightarrow> (releases_POST_catch error, db)
           | Inr validatedData \<Rightarrow>
               (case insert_single db new_id now (insertData validatedData) of
                  (res, db') \<Rightarrow>
                    if pg_error res \<noteq> None
                    then (JsonError 500 ''Failed to save changelog to database'', db')
                    else (case pg_data res of
                            None \<Rightarrow> (releases_POST_catch (Error ''Cannot read properties of null''), db')
                          | Some data \<Rightarrow> (Json 201 (transformReleaseSlice data), db')))))"

section \<open>The console\<close>

text \<open>
  The form state of the console page and the range members that \<open>handleGenerate\<close>
  puts into the payload of a generate request; \<open>Inl\<close> is the title of the toast
  shown when no request is sent. \<open>toISOString\<close> stands for
  \<open>new Date(d).toISOString()\<close>.
\<close>

record console_form =
  f_rangeType :: string
  f_startDate :: string
  f_endDate :: string
  f_baseTag :: string
  f_headTag :: string
  f_baseSha :: string
  f_headSha :: string

definition handleGenerate_params ::
  "(string \<Rightarrow> string) \<Rightarrow> console_form \<Rightarrow> string + range_params" where
  "handleGenerate_params toISOString form =
     (if f_rangeType form = ''date'' then
        if f_startDate form = [] \<or> f_endDate form = [] then Inl ''Missing Dates''
        else Inr \<lparr> p_start = Some (toISOString (f_startDate form)),
                   p_end = Some (toISOString (f_endDate form)),
                   p_base = None, p_head = None \<rparr>
      else if f_rangeType form = ''tag'' then
        if f_baseTag form = [] then Inl ''Missing Base Tag''
        else Inr \<lparr> p_start = None, p_end = None, p_base = Some (f_baseTag form),
                   p_head = Some (or_else (Some (f_headTag form)) ''HEAD'') \<rparr>
      else if f_rangeType form = ''sha'' then
        if f_baseSha form = [] then Inl ''Missing Base SHA''
        else Inr \<lparr> p_start = None, p_end = None, p_base = Some (f_baseSha form),
                   p_head = Some (or_else (Some (f_headSha form)) ''HEAD'') \<rparr>
      else Inr \<lparr> p_start = None, p_end = None, p_base = None, p_head = None \<rparr>)"

section \<open>A fake commit-history provider\<close>

text \<open>
  A repository with one linear branch, answering the four endpoints the way the
  hosting service documents them:
  \<^item> a tag reference names the object the tag points at, a commit for a lightweight
    tag and a tag object for an annotated one; a tag object names its target;
    an unknown name is answered with status 404;
  \<^item> the commit listing is newest first, keeps the commits at or after \<open>since\<close>
    (at or before \<open>until\<close>) and is cut to \<open>per_page\<close> entries;
  \<^item> the comparison \<open>base...head\<close> holds the commits reachable from \<open>head\<close> and
    not from \<open>base\<close>, oldest first.
\<close>

record repository =
  tag_refs :: "(string \<times> git_object) list"
  tag_objects :: "(string \<times> git_object) list"
  history :: "commit list"

text \<open>
  A timestamp \<open>2024-01-01T00:01:41Z\<close> read as the number \<open>20240101000141\<close>;
  timestamps written in one format compare as these numbers do.
\<close>

definition digit_value :: "char \<Rightarrow> int option" where
  "digit_value c =
     (if CHR ''0'' \<le> c \<and> c \<le> CHR ''9'' then Some (of_char c - 48) else None)"

definition date_number :: "string \<Rightarrow> int" where
  "date_number s =
     foldl (\<lambda>n c. case digit_value c of None \<Rightarrow> n | Some d \<Rightarrow> 10 * n + d) 0 s"

definition in_window :: "bool \<Rightarrow> string \<Rightarrow> commit \<Rightarrow> bool" where
  "in_window since date c =
     (if since then date_number date \<le> date_number (author_date c)
      else date_number (author_date c) \<le> date_number date)"

definition reachable_from :: "commit list \<Rightarrow> string \<Rightarrow> commit list" where
  "reachable_from hist head =
     (if head = ''HEAD'' then hist else dropWhile (\<lambda>c. sha c \<noteq> head) hist)"

definition compare_linear ::
  "commit list \<Rightarrow> string \<Rightarrow> string \<Rightarrow> commit list option response" where
  "compare_linear hist base head =
     (if base \<notin> sha ` set hist \<or> reachable_from hist head = []
      then NotOk 404 ''Not Found''
      else if base \<in> sha ` set (reachable_from hist head)
      then Ok (Some (rev (takeWhile (\<lambda>c. sha c \<noteq> base) (reachable_from hist head))))
      else Ok (Some []))"

definition hosting :: "repository \<Rightarrow> provider" where
  "hosting R =
     \<lparr> git_ref_tag = (\<lambda>repo tag.
          case map_of (tag_refs R) tag of
            None \<Rightarrow> NotOk 404 ''Not Found'' | Some obj \<Rightarrow> Ok obj),
       git_tag = (\<lambda>repo ident.
          case map_of (tag_objects R) ident of
            None \<Rightarrow> NotOk 404 ''Not Found'' | Some obj \<Rightarrow> Ok obj),
       list_commits = (\<lambda>repo branch per_page since date.
          Ok (take per_page (filter (in_window since date) (history R)))),
       compare_commits = (\<lambda>repo base head. compare_linear (history R) base head) \<rparr>"

text \<open>The history is listed newest first.\<close>

definition newest_first :: "commit list \<Rightarrow> bool" where
  "newest_first hist =
     sorted_wrt (\<lambda>c c'. date_number (author_date c') \<le> date_number (author_date c)) hist"

section \<open>A running example\<close>

text \<open>
  The repository \<open>octo/demo\<close>, branch \<open>main\<close>: four commits \<open>a0\<close> to \<open>a3\<close>, the
  lightweight tags \<open>v1.0.0\<close> on \<open>a0\<close> and \<open>v1.1.0\<close> on \<open>a1\<close>, and an annotated
  tag \<open>v2.0.0\<close>, whose tag object \<open>t2\<close> points at \<open>a3\<close>. One changelog is published for the commits
  \<open>a1\<close>, \<open>a2\<close>, \<open>a3\<close>; an older row is stored without a commit list.
\<close>

definition demo_commit :: "string \<Rightarrow> string \<Rightarrow> commit" where
  "demo_commit ident date =
     \<lparr> sha = ident, message = ''change '' @ ident, author_name = ''octo'',
       author_date = date \<rparr>"

definition demo_repository :: repository where
  "demo_repository =
     \<lparr> tag_refs = [(''v1.0.0'', \<lparr> obj_type = ''commit'', obj_sha = ''a0'' \<rparr>),
                   (''v1.1.0'', \<lparr> obj_type = ''commit'', obj_sha = ''a1'' \<rparr>),
                   (''v2.0.0'', \<lparr> obj_type = ''tag'', obj_sha = ''t2'' \<rparr>)],
       tag_objects = [(''t2'', \<lparr> obj_type = ''commit'', obj_sha = ''a3'' \<rparr>)],
       history = [demo_commit ''a3'' ''2024-01-02T10:00:00Z'',
                  demo_commit ''a2'' ''2024-01-01T12:00:00Z'',
                  demo_commit ''a1'' ''2024-01-01T09:00:00Z'',
                  demo_commit ''a0'' ''2023-12-30T08:00:00Z''] \<rparr>"

definition demo_env :: env where
  "demo_env =
     \<lparr> GITHUB_PAT = Some ''pat'', OPENAI_API_KEY = Some ''key'',
       NEXT_PUBLIC_SUPABASE_URL = Some ''url'', SUPABASE_SERVICE_ROLE_KEY = Some ''role'',
       HELICONE_API_KEY = Some ''helicone'' \<rparr>"

definition demo_release :: release_slice where
  "demo_release =
     \<lparr> rs_id = ''id-1'', rs_published_at = ''2024-01-03T00:00:00+00:00'',
       rs_repo = ''octo/demo'', rs_branch = ''main'', rs_mode = ''date'',
       rs_start_date = Some ''2024-01-01T00:00:00+00:00'',
       rs_end_date = Some ''2024-01-02T00:00:00+00:00'',
       rs_base_sha = Some ''a1'', rs_head_sha = Some ''a3'',
       rs_base_tag = None, rs_head_tag = None,
       rs_markdown = ''# Release'',
       rs_commits_list = Some [''a1'', ''a2'', ''a3''],
       rs_owner_id = None \<rparr>"

definition legacy_release :: release_slice where
  "legacy_release =
     demo_release \<lparr> rs_id := ''id-0'', rs_published_at := ''2023-12-01T00:00:00+00:00'',
                    rs_commits_list := None \<rparr>"

definition demo_store :: database where
  "demo_store = \<lparr> release_slices = [demo_release], reachable = True \<rparr>"

definition empty_store :: database where
  "empty_store = \<lparr> release_slices = [], reachable = True \<rparr>"

text \<open>
  A busier branch: 101 commits \<open>c101\<close> (newest) down to \<open>c1\<close> (oldest), one per
  second from \<open>2024-01-01T00:00:01Z\<close> on.
\<close>

definition two_digits :: "nat \<Rightarrow> string" where
  "two_digits n = [''0123456789'' ! (n div 10 mod 10), ''0123456789'' ! (n mod 10)]"

definition busy_commit :: "nat \<Rightarrow> commit" where
  "busy_commit n =
     demo_commit (''c'' @ show_nat n)
       (''2024-01-01T00:'' @ two_digits (n div 60) @ '':'' @ two_digits (n mod 60) @ ''Z'')"

definition busy_repository :: repository where
  "busy_repository =
     \<lparr> tag_refs = [], tag_objects = [], history = map busy_commit (rev [1..<102]) \<rparr>"

definition date_params :: "string \<Rightarrow> string \<Rightarrow> range_params" where
  "date_params start_date end_date =
     \<lparr> p_start = Some start_date, p_end = Some end_date, p_base = None, p_head = None \<rparr>"

definition base_head_params :: "string option \<Rightarrow> string option \<Rightarrow> range_params" where
  "base_head_params base head =
     \<lparr> p_start = None, p_end = None, p_base = base, p_head = head \<rparr>"

text \<open>The console form for tag mode with the head tag left empty.\<close>

definition tag_form :: console_form where
  "tag_form =
     \<lparr> f_rangeType = ''tag'', f_startDate = [], f_endDate = [],
       f_baseTag = ''v1.0.0'', f_headTag = [], f_baseSha = [], f_headSha = [] \<rparr>"

text \<open>
  The publish request that stores \<open>demo_release\<close>, a second publish request for the
  same scope that shares \<open>a2\<close> with it, and the row stored for the second one.
\<close>

definition first_publish :: release_body where
  "first_publish =
     \<lparr> rb_repo = Some ''octo/demo'', rb_branch = Some ''main'', rb_mode = Some ''date'',
       rb_baseSha = Some ''a1'', rb_headSha = Some ''a3'',
       rb_markdown = Some ''# Release'',
       rb_commits_list = Some [''a1'', ''a2'', ''a3''],
       rb_originalParams =
         Some (date_params ''2024-01-01T00:00:00+00:00'' ''2024-01-02T00:00:00+00:00'') \<rparr>"

definition second_publish :: release_body where
  "second_publish =
     \<lparr> rb_repo = Some ''octo/demo'', rb_branch = Some ''main'', rb_mode = Some ''sha'',
       rb_baseSha = Some ''a1'', rb_headSha = Some ''b9'',
       rb_markdown = Some ''# Second release'',
       rb_commits_list = Some [''a2'', ''b9''],
       rb_originalParams = None \<rparr>"

definition second_release :: release_slice where
  "second_release =
     \<lparr> rs_id = ''id-2'', rs_published_at = ''2024-01-04T00:00:00+00:00'',
       rs_repo = ''octo/demo'', rs_branch = ''main'', rs_mode = ''sha'',
       rs_start_date = None, rs_end_date = None,
       rs_base_sha = Some ''a1'', rs_head_sha = Some ''b9'',
       rs_base_tag = None, rs_head_tag = None,
       rs_markdown = ''# Second release'',
       rs_commits_list = Some [''a2'', ''b9''],
       rs_owner_id = None \<rparr>"

text \<open>A generate request for the first two days of January, and a text generator.\<close>

definition january_request :: generate_body where
  "january_request =
     \<lparr> b_repo = Some ''octo/demo'', b_branch = Some ''main'', b_mode = Some ''date'',
       b_start = Some ''2024-01-01T00:00:00Z'', b_end = Some ''2024-01-02T23:00:00Z'',
       b_base = None, b_head = None \<rparr>"

definition demo_generator :: generator where
  "demo_generator commits = Inr (Some ''# Release v1.0.0'')"

text \<open>An update request for an identifier that no row carries.\<close>

definition absent_update :: update_body where
  "absent_update = \<lparr> u_id = Some ''id-9'', u_markdown = Some ''# Edited'' \<rparr>"

text \<open>What the two schemas make of \<open>january_request\<close> and of \<open>first_publish\<close>.\<close>

definition january_query :: generate_request where
  "january_query =
     \<lparr> q_repo = ''octo/demo'', q_branch = ''main'', q_mode = ''date'',
       q_params = date_params ''2024-01-01T00:00:00Z'' ''2024-01-02T23:00:00Z'' \<rparr>"

definition first_request :: release_request where
  "first_request =
     \<lparr> r_repo = ''octo/demo'', r_branch = ''main'', r_mode = ''date'',
       r_baseSha = ''a1'', r_headSha = ''a3'', r_markdown = ''# Release'',
       r_commits_list = [''a1'', ''a2'', ''a3''],
       r_originalParams =
         Some (date_params ''2024-01-01T00:00:00+00:00'' ''2024-01-02T00:00:00+00:00'') \<rparr>"

section \<open>Properties of the overlap detector\<close>

lemma io_bind_Inr [simp]:
  "io_bind (Inr x, l) f = (fst (f x), l @ snd (f x))"
  by (simp add: io_bind_def split: prod.splits)

lemma io_bind_Inl [simp]: "io_bind (Inl e, l) f = (Inl e, l)"
  by (simp add: io_bind_def)

lemma list_ex_inter: "list_ex (\<lambda>x. x \<in> new) l \<longleftrightarrow> set l \<inter> new \<noteq> {}"
  by (auto simp: list_ex_iff)

lemma overlap_loop_iff:
  "overlap_loop rows new \<longleftrightarrow>
     (\<exists>r \<in> set rows. \<exists>cs. rs_commits_list r = Some cs \<and> set cs \<inter> new \<noteq> {})"
proof (induction rows)
  case Nil
  show ?case by simp
next
  case (Cons a rows)
  show ?case
  proof (cases "rs_commits_list a")
    case None
    with Cons show ?thesis by simp
  next
    case (Some l)
    with Cons show ?thesis by (simp add: list_ex_inter)
  qed
qed

lemma checkCommitsOverlap_reachable:
  assumes "validateEnvironment e = Inr ()" and "reachable db"
  shows "checkCommitsOverlap e db repo branch new =
           (Inr (overlap_loop (filter (\<lambda>r. rs_repo r = repo \<and> rs_branch r = branch)
                                      (release_slices db)) (set new)),
            [SelectReleaseSlices repo branch])"
proof -
  let ?rows = "filter (\<lambda>r. rs_repo r = repo \<and> rs_branch r = branch) (release_slices db)"
  show ?thesis
  proof (cases "?rows")
    case Nil
    with assms show ?thesis
      by (simp add: checkCommitsOverlap_def io_lift_def io_call_def io_return_def
          select_repo_branch_def)
  next
    case (Cons r rs)
    with assms show ?thesis
      by (simp add: checkCommitsOverlap_def io_lift_def io_call_def io_return_def
          select_repo_branch_def)
  qed
qed

text \<open>
  C2. With the store reachable, \<open>checkCommitsOverlap\<close> answers true exactly when some
  row of the exact (repo, branch) scope holds a commit list that shares an element
  with the candidate list; in particular it answers false when the scope has no rows.
\<close>

theorem checkCommitsOverlap_iff_intersection:
  assumes "validateEnvironment e = Inr ()" and "reachable db"
  shows "fst (checkCommitsOverlap e db repo branch candidateShas) =
           Inr (\<exists>r \<in> set (release_slices db).
                  rs_repo r = repo \<and> rs_branch r = branch \<and>
                  (\<exists>cs. rs_commits_list r = Some cs \<and> set cs \<inter> set candidateShas \<noteq> {}))"
  using assms by (auto simp: checkCommitsOverlap_reachable overlap_loop_iff)

text \<open>
  The statement of C2 at the running example: a candidate sharing \<open>a2\<close> with the
  stored list overlaps; a disjoint candidate does not.
\<close>

theorem checkCommitsOverlap_iff_intersection_witness:
  "validateEnvironment demo_env = Inr () \<and> reachable demo_store \<and>
   fst (checkCommitsOverlap demo_env demo_store ''octo/demo'' ''main'' [''a2'', ''b9''])
     = Inr True \<and>
   fst (checkCommitsOverlap demo_env demo_store ''octo/demo'' ''main'' [''c1'']) = Inr False"
proof -
  have e: "validateEnvironment demo_env = Inr ()"
    by (simp add: validateEnvironment_def missing_variables_def demo_env_def falsy_def)
  have r: "reachable demo_store"
    by (simp add: demo_store_def)
  show ?thesis
    using e r
      checkCommitsOverlap_iff_intersection [OF e r, of "''octo/demo''" "''main''" "[''a2'', ''b9'']"]
      checkCommitsOverlap_iff_intersection [OF e r, of "''octo/demo''" "''main''" "[''c1'']"]
    by (simp add: demo_store_def demo_release_def)
qed

lemma overlap_loop_drop_null:
  assumes "rs_commits_list r = None"
  shows "overlap_loop (filter p (xs @ r # ys)) new = overlap_loop (filter p (xs @ ys)) new"
  using assms by (auto simp: overlap_loop_iff)

text \<open>
  C10. A row whose \<open>commits_list\<close> is null counts as the empty list: wherever it is
  stored, the overlap check answers every candidate as it does without the row, so
  such a row never makes the answer true.
\<close>

theorem null_commits_list_contributes_nothing:
  assumes "rs_commits_list r = None"
  shows "checkCommitsOverlap e (db \<lparr> release_slices := xs @ r # ys \<rparr>) repo branch candidateShas
           = checkCommitsOverlap e (db \<lparr> release_slices := xs @ ys \<rparr>) repo branch candidateShas"
proof (cases "validateEnvironment e")
  case (Inl err)
  then show ?thesis
    by (simp add: checkCommitsOverlap_def io_lift_def)
next
  case (Inr u)
  show ?thesis
  proof (cases "reachable db")
    case True
    with Inr assms show ?thesis
      by (simp add: checkCommitsOverlap_reachable overlap_loop_iff)
  next
    case False
    with Inr show ?thesis
      by (simp add: checkCommitsOverlap_def io_lift_def io_call_def io_throw_def
          select_repo_branch_def)
  qed
qed

theorem null_commits_list_contributes_nothing_witness:
  "rs_commits_list legacy_release = None \<and>
   checkCommitsOverlap demo_env
       (demo_store \<lparr> release_slices := [] @ legacy_release # [demo_release] \<rparr>)
       ''octo/demo'' ''main'' [''b9'']
     = (Inr False, [SelectReleaseSlices ''octo/demo'' ''main''])"
proof -
  have n: "rs_commits_list legacy_release = None"
    by (simp add: legacy_release_def)
  have e: "validateEnvironment demo_env = Inr ()"
    by (simp add: validateEnvironment_def missing_variables_def demo_env_def falsy_def)
  show ?thesis
    using n null_commits_list_contributes_nothing [OF n, where e = demo_env
        and db = demo_store and xs = "[]" and ys = "[demo_release]"
        and repo = "''octo/demo''" and branch = "''main''" and candidateShas = "[''b9'']"]
    by (simp add: checkCommitsOverlap_reachable [OF e] demo_store_def demo_release_def)
qed

section \<open>Properties of the provider client\<close>

lemma io_bind_call [simp]:
  "io_bind (io_call c answer) f = (fst (f answer), c # snd (f answer))"
  by (simp add: io_call_def)

lemma io_return_parts [simp]: "fst (io_return x) = Inr x" "snd (io_return x) = []"
  by (simp_all add: io_return_def)

lemma io_throw_parts [simp]: "fst (io_throw e) = Inl e" "snd (io_throw e) = []"
  by (simp_all add: io_throw_def)

text \<open>
  C6. \<open>resolveTagToSha\<close> fails with the message \<open>Tag '...' not found\<close> when the
  provider answers the reference lookup with 404. A reference whose object is not of
  type \<open>tag\<close> (a lightweight tag) resolves to that object's SHA after this one lookup.
  A reference to a tag object (an annotated tag) costs a second lookup, of the tag
  object, and resolves to the SHA of the tag object's target, not to the SHA of the
  tag object.
\<close>

theorem resolveTagToSha_lightweight_annotated_missing:
  "(git_ref_tag P repo tag = NotOk 404 statusText \<longrightarrow>
      resolveTagToSha P repo tag
        = (Inl (Error (''Tag '' @ quoted tag @ '' not found'')), [GetTagRef repo tag])) \<and>
   (git_ref_tag P repo tag = Ok tagData \<and> obj_type tagData \<noteq> ''tag'' \<longrightarrow>
      resolveTagToSha P repo tag = (Inr (obj_sha tagData), [GetTagRef repo tag])) \<and>
   (git_ref_tag P repo tag = Ok tagData \<and> obj_type tagData = ''tag'' \<and>
    git_tag P repo (obj_sha tagData) = Ok annotatedTag \<longrightarrow>
      resolveTagToSha P repo tag
        = (Inr (obj_sha annotatedTag),
           [GetTagRef repo tag, GetTagObject repo (obj_sha tagData)]))"
  by (simp add: resolveTagToSha_def)

text \<open>
  At the running example: the tag \<open>v3\<close> does not exist, \<open>v1.0.0\<close> is lightweight
  on \<open>a0\<close>, and \<open>v2.0.0\<close> is annotated, its tag object \<open>t2\<close> pointing at \<open>a3\<close>.
\<close>

theorem resolveTagToSha_lightweight_annotated_missing_witness:
  "git_ref_tag (hosting demo_repository) ''octo/demo'' ''v3'' = NotOk 404 ''Not Found'' \<and>
   resolveTagToSha (hosting demo_repository) ''octo/demo'' ''v3''
     = (Inl (Error (''Tag '' @ quoted ''v3'' @ '' not found'')),
        [GetTagRef ''octo/demo'' ''v3'']) \<and>
   git_ref_tag (hosting demo_repository) ''octo/demo'' ''v1.0.0''
     = Ok \<lparr> obj_type = ''commit'', obj_sha = ''a0'' \<rparr> \<and>
   resolveTagToSha (hosting demo_repository) ''octo/demo'' ''v1.0.0''
     = (Inr ''a0'', [GetTagRef ''octo/demo'' ''v1.0.0'']) \<and>
   git_ref_tag (hosting demo_repository) ''octo/demo'' ''v2.0.0''
     = Ok \<lparr> obj_type = ''tag'', obj_sha = ''t2'' \<rparr> \<and>
   git_tag (hosting demo_repository) ''octo/demo'' ''t2''
     = Ok \<lparr> obj_type = ''commit'', obj_sha = ''a3'' \<rparr> \<and>
   resolveTagToSha (hosting demo_repository) ''octo/demo'' ''v2.0.0''
     = (Inr ''a3'', [GetTagRef ''octo/demo'' ''v2.0.0'', GetTagObject ''octo/demo'' ''t2''])"
proof -
  have missing:
    "git_ref_tag (hosting demo_repository) ''octo/demo'' ''v3'' = NotOk 404 ''Not Found''"
    by (simp add: hosting_def demo_repository_def)
  have light:
    "git_ref_tag (hosting demo_repository) ''octo/demo'' ''v1.0.0''
       = Ok \<lparr> obj_type = ''commit'', obj_sha = ''a0'' \<rparr>"
    by (simp add: hosting_def demo_repository_def)
  have ref:
    "git_ref_tag (hosting demo_repository) ''octo/demo'' ''v2.0.0''
       = Ok \<lparr> obj_type = ''tag'', obj_sha = ''t2'' \<rparr>"
    by (simp add: hosting_def demo_repository_def)
  have obj:
    "git_tag (hosting demo_repository) ''octo/demo'' ''t2''
       = Ok \<lparr> obj_type = ''commit'', obj_sha = ''a3'' \<rparr>"
    by (simp add: hosting_def demo_repository_def)
  show ?thesis
    using missing light ref obj
      resolveTagToSha_lightweight_annotated_missing [where P = "hosting demo_repository"
        and repo = "''octo/demo''" and tag = "''v3''" and statusText = "''Not Found''"]
      resolveTagToSha_lightweight_annotated_missing [where P = "hosting demo_repository"
        and repo = "''octo/demo''" and tag = "''v1.0.0''"
        and tagData = "\<lparr> obj_type = ''commit'', obj_sha = ''a0'' \<rparr>"]
      resolveTagToSha_lightweight_annotated_missing [where P = "hosting demo_repository"
        and repo = "''octo/demo''" and tag = "''v2.0.0''"
        and tagData = "\<lparr> obj_type = ''tag'', obj_sha = ''t2'' \<rparr>"
        and annotatedTag = "\<lparr> obj_type = ''commit'', obj_sha = ''a3'' \<rparr>"]
    by simp
qed

lemma sorted_wrt_last:
  assumes "sorted_wrt R xs" and "x \<in> set xs"
  shows "x = last xs \<or> R x (last xs)"
  using assms by (induction xs) (auto split: if_splits)

lemma sorted_wrt_hd:
  assumes "sorted_wrt R xs" and "x \<in> set xs"
  shows "x = hd xs \<or> R (hd xs) x"
  using assms by (cases xs) auto

lemma findCommitShaByDate_Ok:
  assumes "list_commits P repo branch 100 isStart date = Ok commits"
  shows "findCommitShaByDate P repo branch date isStart =
     (if commits = []
      then (Inl (Error (''No commits found '' @ (if isStart then ''since'' else ''until'')
                          @ '' '' @ date)),
            [ListCommits repo branch 100 isStart date])
      else (Inr (if isStart then sha (last commits) else sha (hd commits)),
            [ListCommits repo branch 100 isStart date]))"
  using assms by (simp add: findCommitShaByDate_def last_conv_nth hd_conv_nth)

lemma findCommitShaByDate_hosting:
  "findCommitShaByDate (hosting R) repo branch date isStart =
     (let commits = take 100 (filter (in_window isStart date) (history R))
      in if commits = []
         then (Inl (Error (''No commits found '' @ (if isStart then ''since'' else ''until'')
                             @ '' '' @ date)),
               [ListCommits repo branch 100 isStart date])
         else (Inr (if isStart then sha (last commits) else sha (hd commits)),
               [ListCommits repo branch 100 isStart date]))"
proof -
  have "list_commits (hosting R) repo branch 100 isStart date
          = Ok (take 100 (filter (in_window isStart date) (history R)))"
    by (simp add: hosting_def)
  from findCommitShaByDate_Ok [OF this] show ?thesis
    by (simp add: Let_def)
qed

text \<open>
  C7, as the code has it. Against a branch listed newest first, the start edge is the
  oldest commit at or after the date provided that at most 100 commits lie at or after
  it (one page is requested and its last entry is taken); the end edge is the newest
  commit at or before the date; and an empty window fails with the message
  \<open>No commits found since ...\<close> (\<open>until\<close> for the end edge).
\<close>

theorem findCommitShaByDate_boundary:
  assumes "newest_first (history R)"
  shows
   "(filter (in_window True date) (history R) \<noteq> [] \<and>
     length (filter (in_window True date) (history R)) \<le> 100 \<longrightarrow>
       (\<exists>c \<in> set (history R).
          fst (findCommitShaByDate (hosting R) repo branch date True) = Inr (sha c) \<and>
          in_window True date c \<and>
          (\<forall>c' \<in> set (history R). in_window True date c' \<longrightarrow>
             date_number (author_date c) \<le> date_number (author_date c')))) \<and>
    (filter (in_window False date) (history R) \<noteq> [] \<longrightarrow>
       (\<exists>c \<in> set (history R).
          fst (findCommitShaByDate (hosting R) repo branch date False) = Inr (sha c) \<and>
          in_window False date c \<and>
          (\<forall>c' \<in> set (history R). in_window False date c' \<longrightarrow>
             date_number (author_date c') \<le> date_number (author_date c)))) \<and>
    (filter (in_window isStart date) (history R) = [] \<longrightarrow>
       fst (findCommitShaByDate (hosting R) repo branch date isStart)
         = Inl (Error (''No commits found '' @ (if isStart then ''since'' else ''until'')
                         @ '' '' @ date)))"
proof (intro conjI impI)
  let ?rel = "\<lambda>c c'. date_number (author_date c') \<le> date_number (author_date c)"
  {
    let ?W = "filter (in_window True date) (history R)"
    assume w: "?W \<noteq> [] \<and> length ?W \<le> 100"
    have sorted: "sorted_wrt ?rel ?W"
      using assms by (simp add: newest_first_def sorted_wrt_filter)
    have res: "fst (findCommitShaByDate (hosting R) repo branch date True) = Inr (sha (last ?W))"
      using w by (simp add: findCommitShaByDate_hosting)
    have mem: "last ?W \<in> set ?W"
      by (rule last_in_set) (use w in simp)
    have oldest: "date_number (author_date (last ?W)) \<le> date_number (author_date c')"
      if "c' \<in> set (history R)" and "in_window True date c'" for c'
    proof -
      from that have "c' \<in> set ?W" by simp
      from sorted_wrt_last [OF sorted this] show ?thesis by auto
    qed
    show "\<exists>c \<in> set (history R).
          fst (findCommitShaByDate (hosting R) repo branch date True) = Inr (sha c) \<and>
          in_window True date c \<and>
          (\<forall>c' \<in> set (history R). in_window True date c' \<longrightarrow>
             date_number (author_date c) \<le> date_number (author_date c'))"
      using res mem oldest by (intro bexI [of _ "last ?W"]) auto
  }
  {
    let ?W = "filter (in_window False date) (history R)"
    assume w: "?W \<noteq> []"
    have sorted: "sorted_wrt ?rel ?W"
      using assms by (simp add: newest_first_def sorted_wrt_filter)
    have res: "fst (findCommitShaByDate (hosting R) repo branch date False) = Inr (sha (hd ?W))"
      using w by (simp add: findCommitShaByDate_hosting)
    have mem: "hd ?W \<in> set ?W"
      by (rule hd_in_set) (use w in simp)
    have newest: "date_number (author_date c') \<le> date_number (author_date (hd ?W))"
      if "c' \<in> set (history R)" and "in_window False date c'" for c'
    proof -
      from that have "c' \<in> set ?W" by simp
      from sorted_wrt_hd [OF sorted this] show ?thesis by auto
    qed
    show "\<exists>c \<in> set (history R).
          fst (findCommitShaByDate (hosting R) repo branch date False) = Inr (sha c) \<and>
          in_window False date c \<and>
          (\<forall>c' \<in> set (history R). in_window False date c' \<longrightarrow>
             date_number (author_date c') \<le> date_number (author_date c))"
      using res mem newest by (intro bexI [of _ "hd ?W"]) auto
  }
  {
    assume "filter (in_window isStart date) (history R) = []"
    then show "fst (findCommitShaByDate (hosting R) repo branch date isStart)
         = Inl (Error (''No commits found '' @ (if isStart then ''since'' else ''until'')
                         @ '' '' @ date))"
      by (simp add: findCommitShaByDate_hosting)
  }
qed

text \<open>
  At the running example: \<open>a1\<close> is the oldest commit since the first of January,
  \<open>a3\<close> the newest until the second, and nothing was committed before 2023.
\<close>

theorem findCommitShaByDate_boundary_witness:
  "newest_first (history demo_repository) \<and>
   (filter (in_window True ''2024-01-01T00:00:00Z'') (history demo_repository) \<noteq> [] \<and>
    length (filter (in_window True ''2024-01-01T00:00:00Z'') (history demo_repository))
      \<le> 100) \<and>
   (\<exists>c \<in> set (history demo_repository).
      fst (findCommitShaByDate (hosting demo_repository) ''octo/demo'' ''main''
             ''2024-01-01T00:00:00Z'' True) = Inr (sha c) \<and>
      in_window True ''2024-01-01T00:00:00Z'' c \<and>
      (\<forall>c' \<in> set (history demo_repository).
         in_window True ''2024-01-01T00:00:00Z'' c' \<longrightarrow>
         date_number (author_date c) \<le> date_number (author_date c'))) \<and>
   fst (findCommitShaByDate (hosting demo_repository) ''octo/demo'' ''main''
          ''2024-01-01T00:00:00Z'' True) = Inr ''a1'' \<and>
   filter (in_window False ''2023-01-01T00:00:00Z'') (history demo_repository) = [] \<and>
   fst (findCommitShaByDate (hosting demo_repository) ''octo/demo'' ''main''
          ''2023-01-01T00:00:00Z'' False)
     = Inl (Error ''No commits found until 2023-01-01T00:00:00Z'')"
proof -
  have nf: "newest_first (history demo_repository)"
    by code_simp
  have w: "filter (in_window True ''2024-01-01T00:00:00Z'') (history demo_repository) \<noteq> [] \<and>
           length (filter (in_window True ''2024-01-01T00:00:00Z'') (history demo_repository))
             \<le> 100"
    by code_simp
  have n: "filter (in_window False ''2023-01-01T00:00:00Z'') (history demo_repository) = []"
    by code_simp
  have v: "fst (findCommitShaByDate (hosting demo_repository) ''octo/demo'' ''main''
                  ''2024-01-01T00:00:00Z'' True) = Inr ''a1''"
    by code_simp
  note b = findCommitShaByDate_boundary [OF nf, where repo = "''octo/demo''"
      and branch = "''main''"]
  from b [where date = "''2024-01-01T00:00:00Z''" and isStart = True] w
  have start: "\<exists>c \<in> set (history demo_repository).
      fst (findCommitShaByDate (hosting demo_repository) ''octo/demo'' ''main''
             ''2024-01-01T00:00:00Z'' True) = Inr (sha c) \<and>
      in_window True ''2024-01-01T00:00:00Z'' c \<and>
      (\<forall>c' \<in> set (history demo_repository).
         in_window True ''2024-01-01T00:00:00Z'' c' \<longrightarrow>
         date_number (author_date c) \<le> date_number (author_date c'))"
    by blast
  from b [where date = "''2023-01-01T00:00:00Z''" and isStart = False] n
  have none: "fst (findCommitShaByDate (hosting demo_repository) ''octo/demo'' ''main''
                     ''2023-01-01T00:00:00Z'' False)
                = Inl (Error ''No commits found until 2023-01-01T00:00:00Z'')"
    by simp
  from nf w start v n none show ?thesis
    by blast
qed

text \<open>
  The claim C7 as stated fails on a branch with more than 100 commits at or after the
  date: of the 101 commits of the busy branch, all made after midnight, the start
  edge found is \<open>c2\<close>, while \<open>c1\<close> is older and also after midnight.
\<close>

theorem findCommitShaByDate_start_not_oldest:
  "fst (findCommitShaByDate (hosting busy_repository) ''octo/demo'' ''main''
          ''2024-01-01T00:00:00Z'' True) = Inr ''c2'' \<and>
   sha (busy_commit 2) = ''c2'' \<and>
   busy_commit 1 \<in> set (history busy_repository) \<and>
   in_window True ''2024-01-01T00:00:00Z'' (busy_commit 1) \<and>
   date_number (author_date (busy_commit 1)) < date_number (author_date (busy_commit 2))"
  by code_simp

section \<open>Properties of the range resolver\<close>






lemma io_bind_return [simp]: "io_bind (io_return x) f = f x"
  by (simp add: io_return_def)

lemma io_bind_throw [simp]: "io_bind (io_throw e) f = io_throw e"
  by (simp add: io_throw_def)

text \<open>
  C4, as the code has it. In tag mode and in SHA mode the resolver requires the head
  value: a request without it is rejected before any provider call. The literal
  \<open>HEAD\<close> is a head value like another in SHA mode and is passed through unresolved
  in tag mode, where the base tag alone is looked up. It is the console that writes
  \<open>HEAD\<close> into the request when its head field is left empty.
\<close>

theorem convertToShaRange_head_required:
  "((mode = ''tag'' \<or> mode = ''sha'') \<and> falsy (p_head params) \<longrightarrow>
      convertToShaRange P repo branch mode params
        = (Inl (Error (if mode = ''tag'' then ''Base and head tags are required for tag mode''
                       else ''Base and head SHAs are required for SHA mode'')), [])) \<and>
   (\<not> falsy (p_base params) \<and> p_head params = Some ''HEAD'' \<longrightarrow>
      convertToShaRange P repo branch ''sha'' params = (Inr (the (p_base params), ''HEAD''), []) \<and>
      (\<forall>baseSha. fst (resolveTagToSha P repo (the (p_base params))) = Inr baseSha \<longrightarrow>
         convertToShaRange P repo branch ''tag'' params
           = (Inr (baseSha, ''HEAD''), snd (resolveTagToSha P repo (the (p_base params)))))) \<and>
   (handleGenerate_params toISOString form = Inr params \<and>
    (f_rangeType form = ''tag'' \<and> f_headTag form = [] \<or>
     f_rangeType form = ''sha'' \<and> f_headSha form = []) \<longrightarrow>
      \<not> falsy (p_base params) \<and> p_head params = Some ''HEAD'')"
proof (intro conjI impI allI)
  assume "(mode = ''tag'' \<or> mode = ''sha'') \<and> falsy (p_head params)"
  then show "convertToShaRange P repo branch mode params
        = (Inl (Error (if mode = ''tag'' then ''Base and head tags are required for tag mode''
                       else ''Base and head SHAs are required for SHA mode'')), [])"
    by (auto simp: convertToShaRange_def io_throw_def)
next
  assume "\<not> falsy (p_base params) \<and> p_head params = Some ''HEAD''"
  then show "convertToShaRange P repo branch ''sha'' params
               = (Inr (the (p_base params), ''HEAD''), [])"
    by (simp add: convertToShaRange_def io_return_def falsy_def)
next
  fix baseSha
  assume h: "\<not> falsy (p_base params) \<and> p_head params = Some ''HEAD''"
    and r: "fst (resolveTagToSha P repo (the (p_base params))) = Inr baseSha"
  obtain l where m: "resolveTagToSha P repo (the (p_base params)) = (Inr baseSha, l)"
    using r by (cases "resolveTagToSha P repo (the (p_base params))") simp
  from h show "convertToShaRange P repo branch ''tag'' params
           = (Inr (baseSha, ''HEAD''), snd (resolveTagToSha P repo (the (p_base params))))"
    by (simp add: convertToShaRange_def falsy_def m)
next
  assume a: "handleGenerate_params toISOString form = Inr params \<and>
    (f_rangeType form = ''tag'' \<and> f_headTag form = [] \<or>
     f_rangeType form = ''sha'' \<and> f_headSha form = [])"
  then show "\<not> falsy (p_base params)" 
    by (auto simp: handleGenerate_params_def or_else_def falsy_def split: if_splits)
  from a show "p_head params = Some ''HEAD''"
    by (auto simp: handleGenerate_params_def or_else_def falsy_def split: if_splits)
qed

text \<open>
  At the running example: without a head the tag-mode request is rejected; with
  \<open>HEAD\<close> only \<open>v1.0.0\<close> is looked up; the console form with an empty head tag
  yields the request with \<open>HEAD\<close>.
\<close>

theorem convertToShaRange_head_required_witness:
  "falsy (p_head (base_head_params (Some ''v1.0.0'') None)) \<and>
   convertToShaRange (hosting demo_repository) ''octo/demo'' ''main'' ''tag''
       (base_head_params (Some ''v1.0.0'') None)
     = (Inl (Error ''Base and head tags are required for tag mode''), []) \<and>
   \<not> falsy (p_base (base_head_params (Some ''v1.0.0'') (Some ''HEAD''))) \<and>
   fst (resolveTagToSha (hosting demo_repository) ''octo/demo'' ''v1.0.0'') = Inr ''a0'' \<and>
   convertToShaRange (hosting demo_repository) ''octo/demo'' ''main'' ''tag''
       (base_head_params (Some ''v1.0.0'') (Some ''HEAD''))
     = (Inr (''a0'', ''HEAD''), [GetTagRef ''octo/demo'' ''v1.0.0'']) \<and>
   handleGenerate_params id tag_form
     = Inr (base_head_params (Some ''v1.0.0'') (Some ''HEAD''))"
proof -
  have f: "falsy (p_head (base_head_params (Some ''v1.0.0'') None))"
    by (simp add: base_head_params_def falsy_def)
  have b: "\<not> falsy (p_base (base_head_params (Some ''v1.0.0'') (Some ''HEAD''))) \<and>
           p_head (base_head_params (Some ''v1.0.0'') (Some ''HEAD'')) = Some ''HEAD''"
    by (simp add: base_head_params_def falsy_def)
  have r: "resolveTagToSha (hosting demo_repository) ''octo/demo'' ''v1.0.0''
             = (Inr ''a0'', [GetTagRef ''octo/demo'' ''v1.0.0''])"
    by (simp add: resolveTagToSha_def hosting_def demo_repository_def)
  have c: "handleGenerate_params id tag_form
             = Inr (base_head_params (Some ''v1.0.0'') (Some ''HEAD''))"
    by (simp add: handleGenerate_params_def tag_form_def base_head_params_def or_else_def)
  note t = convertToShaRange_head_required [where P = "hosting demo_repository"
      and repo = "''octo/demo''" and branch = "''main''" and toISOString = id
      and form = tag_form]
  from t [where mode = "''tag''" and params = "base_head_params (Some ''v1.0.0'') None"] f
  have rejected: "convertToShaRange (hosting demo_repository) ''octo/demo'' ''main'' ''tag''
       (base_head_params (Some ''v1.0.0'') None)
     = (Inl (Error ''Base and head tags are required for tag mode''), [])"
    by simp
  from t [where mode = "''tag''"
      and params = "base_head_params (Some ''v1.0.0'') (Some ''HEAD'')"] b r
  have passed: "convertToShaRange (hosting demo_repository) ''octo/demo'' ''main'' ''tag''
       (base_head_params (Some ''v1.0.0'') (Some ''HEAD''))
     = (Inr (''a0'', ''HEAD''), [GetTagRef ''octo/demo'' ''v1.0.0''])"
    by (simp add: base_head_params_def)
  from f rejected b r passed c show ?thesis
    by simp
qed

text \<open>
  The claim C4 as stated fails: a tag-mode or SHA-mode request that omits the head
  value does not proceed with \<open>HEAD\<close>; the resolver rejects it.
\<close>

theorem head_omitted_is_rejected:
  "convertToShaRange (hosting demo_repository) ''octo/demo'' ''main'' ''tag''
          (base_head_params (Some ''v1.0.0'') None)
     = (Inl (Error ''Base and head tags are required for tag mode''), []) \<and>
   convertToShaRange (hosting demo_repository) ''octo/demo'' ''main'' ''sha''
          (base_head_params (Some ''a0'') None)
     = (Inl (Error ''Base and head SHAs are required for SHA mode''), [])"
  by (simp add: convertToShaRange_def base_head_params_def falsy_def io_throw_def)

section \<open>Properties of the generate route\<close>

lemma generate_catch_required:
  "generate_catch (Error ''Start and end dates are required for date mode'') = JsonError 500 ''Internal server error''"
  "generate_catch (Error ''Base and head tags are required for tag mode'') = JsonError 500 ''Internal server error''"
  "generate_catch (Error ''Base and head SHAs are required for SHA mode'') = JsonError 500 ''Internal server error''"
  by (simp_all add: generate_catch_def)

text \<open>
  C5 at a date-mode request without an end date. The request is refused before any
  outside call, but the refusal reaches the caller as the generic 500
  \<open>Internal server error\<close>: the \<open>catch\<close> block has no case for the resolver's
  messages, unlike the schema failure, which is answered with 400.
\<close>

theorem missing_end_date_internal_error:
  "POST_generate demo_env P db llm
     \<lparr> b_repo = Some ''octo/demo'', b_branch = Some ''main'', b_mode = Some ''date'',
       b_start = Some ''2024-01-01'', b_end = None, b_base = None, b_head = None \<rparr>
   = (JsonError 500 ''Internal server error'', [])"
  by (simp add: POST_generate_def generate_try_def io_lift_def validateEnvironment_def
      missing_variables_def demo_env_def falsy_def generateSchema_parse_def
      convertToShaRange_def io_throw_def generate_catch_required)

section \<open>Properties of publishing\<close>

lemma io_bind_resolved:
  assumes "fst m = Inr x"
  shows "io_bind m f = (fst (f x), snd m @ snd (f x))"
  using assms by (cases m) (simp add: io_bind_def split: prod.splits)

lemma resolveTagToSha_no_completion:
  "ChatCompletion \<notin> set (snd (resolveTagToSha P repo tag))"
  by (simp add: resolveTagToSha_def split: response.splits)

lemma findCommitShaByDate_no_completion:
  "ChatCompletion \<notin> set (snd (findCommitShaByDate P repo branch date isStart))"
  by (simp add: findCommitShaByDate_def split: response.splits)

lemma io_bind_no_completion:
  assumes "ChatCompletion \<notin> set (snd m)" and "\<forall>x. ChatCompletion \<notin> set (snd (f x))"
  shows "ChatCompletion \<notin> set (snd (io_bind m f))"
proof (cases m)
  case (Pair r l)
  with assms show ?thesis
    by (cases r) simp_all
qed

lemma convertToShaRange_no_completion:
  "ChatCompletion \<notin> set (snd (convertToShaRange P repo branch mode params))"
  unfolding convertToShaRange_def
  by (simp add: io_bind_no_completion findCommitShaByDate_no_completion
      resolveTagToSha_no_completion)

lemma fetchCommits_no_completion:
  "ChatCompletion \<notin> set (snd (fetchCommits P repo branch mode params))"
  unfolding fetchCommits_def
  by (rule io_bind_no_completion)
     (simp_all add: convertToShaRange_no_completion split: response.splits)


lemma POST_releases_stores:
  assumes "validateEnvironment_releases e = Inr ()"
    and "createReleaseSchema_parse body = Inr v" and "reachable db"
  shows "POST_releases e db new_id now body
           = (Json 201 (transformReleaseSlice
                          (insertData v \<lparr> rs_id := new_id, rs_published_at := now \<rparr>)),
              db \<lparr> release_slices := release_slices db
                       @ [insertData v \<lparr> rs_id := new_id, rs_published_at := now \<rparr>] \<rparr>)"
  using assms by (simp add: POST_releases_def insert_single_def Let_def)

text \<open>
  C1, as the code has it. The overlap check gates the generate operation: a generate
  request whose fetched commits share a SHA with a stored row of its (repo, branch)
  scope is answered with 400 and the conflict message, and the text generator is not
  called. The publish operation makes no overlap check: a publish request that passes
  the schema is inserted whenever the store is reachable.
\<close>

theorem overlap_gates_generate_not_publish:
  "(validateEnvironment e = Inr () \<and> generateSchema_parse body = Inr q \<and>
    fst (convertToShaRange P (q_repo q) (q_branch q) (q_mode q) (q_params q)) = Inr resolved \<and>
    fst (fetchCommits P (q_repo q) (q_branch q) (q_mode q) (q_params q)) = Inr commits \<and>
    commits \<noteq> [] \<and> reachable db \<and>
    (\<exists>r \<in> set (release_slices db).
       rs_repo r = q_repo q \<and> rs_branch r = q_branch q \<and>
       (\<exists>cs. rs_commits_list r = Some cs \<and> set cs \<inter> set (map sha commits) \<noteq> {})) \<longrightarrow>
      fst (POST_generate e P db llm body) = JsonError 400 overlap_message \<and>
      ChatCompletion \<notin> set (snd (POST_generate e P db llm body))) \<and>
   (validateEnvironment_releases e' = Inr () \<and> createReleaseSchema_parse publish = Inr v \<and>
    reachable db \<longrightarrow>
      POST_releases e' db new_id now publish
        = (Json 201 (transformReleaseSlice
                       (insertData v \<lparr> rs_id := new_id, rs_published_at := now \<rparr>)),
           db \<lparr> release_slices := release_slices db
                    @ [insertData v \<lparr> rs_id := new_id, rs_published_at := now \<rparr>] \<rparr>))"
proof (intro conjI impI)
  assume a: "validateEnvironment e = Inr () \<and> generateSchema_parse body = Inr q \<and>
    fst (convertToShaRange P (q_repo q) (q_branch q) (q_mode q) (q_params q)) = Inr resolved \<and>
    fst (fetchCommits P (q_repo q) (q_branch q) (q_mode q) (q_params q)) = Inr commits \<and>
    commits \<noteq> [] \<and> reachable db \<and>
    (\<exists>r \<in> set (release_slices db).
       rs_repo r = q_repo q \<and> rs_branch r = q_branch q \<and>
       (\<exists>cs. rs_commits_list r = Some cs \<and> set cs \<inter> set (map sha commits) \<noteq> {}))"
  let ?conv = "convertToShaRange P (q_repo q) (q_branch q) (q_mode q) (q_params q)"
  let ?fetch = "fetchCommits P (q_repo q) (q_branch q) (q_mode q) (q_params q)"
  from a have env: "validateEnvironment e = Inr ()" and db: "reachable db"
    and parse: "generateSchema_parse body = Inr q"
    and conv: "fst ?conv = Inr resolved" and fetch: "fst ?fetch = Inr commits"
    and ne: "commits \<noteq> []"
    by simp_all
  from a have hit: "overlap_loop
      (filter (\<lambda>r. rs_repo r = q_repo q \<and> rs_branch r = q_branch q) (release_slices db))
      (set (map sha commits))"
    unfolding overlap_loop_iff by auto
  have check: "checkCommitsOverlap e db (q_repo q) (q_branch q) (map sha commits)
                 = (Inr True, [SelectReleaseSlices (q_repo q) (q_branch q)])"
    using hit by (simp add: checkCommitsOverlap_reachable [OF env db])
  have tried: "generate_try e P db llm body
               = (Inr (JsonError 400 overlap_message),
                  snd ?conv @ snd ?fetch @ [SelectReleaseSlices (q_repo q) (q_branch q)])"
    using ne
    by (simp add: generate_try_def io_lift_def env parse io_bind_resolved [OF conv]
        io_bind_resolved [OF fetch] check split_beta Let_def)
  then have post: "POST_generate e P db llm body
                     = (JsonError 400 overlap_message,
                        snd ?conv @ snd ?fetch @ [SelectReleaseSlices (q_repo q) (q_branch q)])"
    by (simp add: POST_generate_def)
  show "fst (POST_generate e P db llm body) = JsonError 400 overlap_message"
    by (simp add: post)
  show "ChatCompletion \<notin> set (snd (POST_generate e P db llm body))"
    by (simp add: post convertToShaRange_no_completion fetchCommits_no_completion)
next
  assume "validateEnvironment_releases e' = Inr () \<and> createReleaseSchema_parse publish = Inr v \<and>
    reachable db"
  then show "POST_releases e' db new_id now publish
        = (Json 201 (transformReleaseSlice
                       (insertData v \<lparr> rs_id := new_id, rs_published_at := now \<rparr>)),
           db \<lparr> release_slices := release_slices db
                    @ [insertData v \<lparr> rs_id := new_id, rs_published_at := now \<rparr>] \<rparr>)"
    by (simp add: POST_releases_stores)
qed

text \<open>
  At the running example: the January request overlaps the published changelog and is
  refused without a call to the generator; the first publish request is stored.
\<close>

theorem overlap_gates_generate_not_publish_witness:
  "validateEnvironment demo_env = Inr () \<and> reachable demo_store \<and>
   generateSchema_parse january_request = Inr january_query \<and>
   fst (POST_generate demo_env (hosting demo_repository) demo_store demo_generator
          january_request) = JsonError 400 overlap_message \<and>
   ChatCompletion \<notin> set (snd (POST_generate demo_env (hosting demo_repository) demo_store
                                   demo_generator january_request)) \<and>
   validateEnvironment_releases demo_env = Inr () \<and>
   createReleaseSchema_parse first_publish = Inr first_request \<and>
   reachable empty_store \<and>
   POST_releases demo_env empty_store ''id-1'' ''2024-01-03T00:00:00+00:00'' first_publish
     = (Json 201 (transformReleaseSlice demo_release), demo_store)"
proof -
  let ?commits = "[demo_commit ''a2'' ''2024-01-01T12:00:00Z'',
                   demo_commit ''a3'' ''2024-01-02T10:00:00Z'']"
  have e: "validateEnvironment demo_env = Inr ()"
    by code_simp
  have q: "generateSchema_parse january_request = Inr january_query"
    by code_simp
  have c: "fst (convertToShaRange (hosting demo_repository) (q_repo january_query)
                  (q_branch january_query) (q_mode january_query) (q_params january_query))
             = Inr (''a1'', ''a3'')"
    by code_simp
  have f: "fst (fetchCommits (hosting demo_repository) (q_repo january_query)
                  (q_branch january_query) (q_mode january_query) (q_params january_query))
             = Inr ?commits"
    by code_simp
  have ne: "?commits \<noteq> []"
    by simp
  have d: "reachable demo_store"
    by (simp add: demo_store_def)
  have hit: "\<exists>r \<in> set (release_slices demo_store).
       rs_repo r = q_repo january_query \<and> rs_branch r = q_branch january_query \<and>
       (\<exists>cs. rs_commits_list r = Some cs \<and> set cs \<inter> set (map sha ?commits) \<noteq> {})"
    by (simp add: demo_store_def demo_release_def demo_commit_def january_query_def)
  have e': "validateEnvironment_releases demo_env = Inr ()"
    by code_simp
  have v: "createReleaseSchema_parse first_publish = Inr first_request"
    by code_simp
  have d': "reachable empty_store"
    by (simp add: empty_store_def)
  have stored: "insertData first_request
                  \<lparr> rs_id := ''id-1'', rs_published_at := ''2024-01-03T00:00:00+00:00'' \<rparr>
                  = demo_release"
    by code_simp
  note t = overlap_gates_generate_not_publish [where e = demo_env
      and body = january_request and q = january_query and P = "hosting demo_repository"
      and resolved = "(''a1'', ''a3'')" and commits = ?commits and llm = demo_generator
      and e' = demo_env and publish = first_publish and v = first_request
      and new_id = "''id-1''" and now = "''2024-01-03T00:00:00+00:00''"]
  from t [where db = demo_store] e q c f ne d hit
  have refused: "fst (POST_generate demo_env (hosting demo_repository) demo_store
                        demo_generator january_request) = JsonError 400 overlap_message \<and>
                 ChatCompletion \<notin> set (snd (POST_generate demo_env (hosting demo_repository)
                                                 demo_store demo_generator january_request))"
    by blast
  from t [where db = empty_store] e' v d'
  have "POST_releases demo_env empty_store ''id-1'' ''2024-01-03T00:00:00+00:00'' first_publish
     = (Json 201 (transformReleaseSlice
                    (insertData first_request
                       \<lparr> rs_id := ''id-1'', rs_published_at := ''2024-01-03T00:00:00+00:00'' \<rparr>)),
        empty_store \<lparr> release_slices := release_slices empty_store
          @ [insertData first_request
               \<lparr> rs_id := ''id-1'', rs_published_at := ''2024-01-03T00:00:00+00:00'' \<rparr>] \<rparr>)"
    by blast
  then have published:
    "POST_releases demo_env empty_store ''id-1'' ''2024-01-03T00:00:00+00:00'' first_publish
       = (Json 201 (transformReleaseSlice demo_release), demo_store)"
    by (simp add: stored empty_store_def demo_store_def)
  from e d q refused e' v d' published show ?thesis
    by blast
qed

text \<open>
  The claim C1 as stated fails on the second publish request of the running example:
  its commits share \<open>a2\<close> with the published changelog, the overlap check would
  answer true, and yet the request is answered with 201 and its row is stored.
\<close>

theorem overlapping_publish_is_inserted:
  "fst (checkCommitsOverlap demo_env demo_store ''octo/demo'' ''main'' [''a2'', ''b9''])
     = Inr True \<and>
   POST_releases demo_env demo_store ''id-2'' ''2024-01-04T00:00:00+00:00'' second_publish
     = (Json 201 (transformReleaseSlice second_release),
        demo_store \<lparr> release_slices := [demo_release, second_release] \<rparr>)"
  by code_simp






section \<open>Properties of the markdown update\<close>

text \<open>
  C9 at an update request for the identifier \<open>id-9\<close>, which no row of the store
  carries: the answer is 500 \<open>Failed to update changelog\<close>, not the 404
  \<open>Changelog not found\<close> of the handler's last check, because \<open>single()\<close> reports
  the empty result as an error and the error check comes first.
\<close>

theorem update_of_absent_id_is_internal_error:
  "PUT_releases demo_env demo_store absent_update
     = (JsonError 500 ''Failed to update changelog'', demo_store)"
  by code_simp

text \<open>
  No request at all is answered with the 404 of the handler. What the update does
  change is the markdown alone, of the rows with the given identifier: every other
  column of every row, and so the answer of the overlap check, stays as it was.
\<close>

lemma PUT_releases_never_not_found:
  "fst (PUT_releases e db body) \<noteq> JsonError 404 ''Changelog not found''"
  by (auto simp: PUT_releases_def update_markdown_single_def releases_catch_def
      split: sum.splits list.splits exn.splits)

lemma update_markdown_single_frame:
  "map (\<lambda>r. r \<lparr> rs_markdown := [] \<rparr>) (release_slices (snd (update_markdown_single db ident markdown)))
     = map (\<lambda>r. r \<lparr> rs_markdown := [] \<rparr>) (release_slices db) \<and>
   reachable (snd (update_markdown_single db ident markdown)) = reachable db"
  by (auto simp: update_markdown_single_def o_def split: list.splits)

lemma PUT_releases_frame:
  "map (\<lambda>r. r \<lparr> rs_markdown := [] \<rparr>) (release_slices (snd (PUT_releases e db body)))
     = map (\<lambda>r. r \<lparr> rs_markdown := [] \<rparr>) (release_slices db) \<and>
   reachable (snd (PUT_releases e db body)) = reachable db"
  using update_markdown_single_frame [of db "the (u_id body)" "the (u_markdown body)"]
  by (auto simp: PUT_releases_def split: sum.splits prod.splits option.splits)

lemma PUT_releases_present:
  assumes "validateEnvironment_releases e = Inr ()" and "reachable db"
    and "filter (\<lambda>r. rs_id r = ident) (release_slices db) = [row]"
    and "ident \<noteq> []" and "markdown \<noteq> []"
  shows "PUT_releases e db \<lparr> u_id = Some ident, u_markdown = Some markdown \<rparr>
           = (Json 200 (transformReleaseSlice (row \<lparr> rs_markdown := markdown \<rparr>)),
              db \<lparr> release_slices :=
                     map (\<lambda>r. if rs_id r = ident then r \<lparr> rs_markdown := markdown \<rparr> else r)
                         (release_slices db) \<rparr>)"
  using assms by (simp add: PUT_releases_def update_markdown_single_def falsy_def)

lemma overlap_loop_markdown:
  "overlap_loop (filter (\<lambda>r. rs_repo r = repo \<and> rs_branch r = branch)
                        (map (\<lambda>r. r \<lparr> rs_markdown := [] \<rparr>) xs)) new
     = overlap_loop (filter (\<lambda>r. rs_repo r = repo \<and> rs_branch r = branch) xs) new"
  by (induction xs) simp_all

lemma PUT_releases_overlap_unchanged:
  "fst (checkCommitsOverlap e' (snd (PUT_releases e db body)) repo branch candidateShas)
     = fst (checkCommitsOverlap e' db repo branch candidateShas)"
proof -
  let ?db = "snd (PUT_releases e db body)"
  let ?strip = "\<lambda>r. r \<lparr> rs_markdown := [] \<rparr>"
  let ?scope = "\<lambda>r. rs_repo r = repo \<and> rs_branch r = branch"
  have rows: "map ?strip (release_slices ?db) = map ?strip (release_slices db)"
    and up: "reachable ?db = reachable db"
    using PUT_releases_frame [of e db body] by simp_all
  have loop: "overlap_loop (filter ?scope (release_slices ?db)) new
                = overlap_loop (filter ?scope (release_slices db)) new" for new
  proof -
    have "overlap_loop (filter ?scope (release_slices ?db)) new
            = overlap_loop (filter ?scope (map ?strip (release_slices ?db))) new"
      by (rule overlap_loop_markdown [symmetric])
    also have "\<dots> = overlap_loop (filter ?scope (map ?strip (release_slices db))) new"
      by (simp only: rows)
    also have "\<dots> = overlap_loop (filter ?scope (release_slices db)) new"
      by (rule overlap_loop_markdown)
    finally show ?thesis .
  qed
  show ?thesis
  proof (cases "validateEnvironment e'")
    case (Inl err)
    then show ?thesis
      by (simp add: checkCommitsOverlap_def io_lift_def)
  next
    case (Inr u)
    show ?thesis
    proof (cases "reachable db")
      case True
      with up have up': "reachable ?db"
        by simp
      from Inr have env: "validateEnvironment e' = Inr ()"
        by simp
      show ?thesis
        unfolding checkCommitsOverlap_reachable [OF env True]
          checkCommitsOverlap_reachable [OF env up']
        by (simp only: loop fst_conv)
    next
      case False
      with up have "\<not> reachable ?db"
        by simp
      with False Inr show ?thesis
        by (simp add: checkCommitsOverlap_def io_lift_def select_repo_branch_def)
    qed
  qed
qed

end
